theory Spec2Isabelle
  imports Complex_Main
begin

section \<open>The secure-api service (apps/api/app.py)\<close>

text \<open>
  The service is a FastAPI application with five endpoints and one HTTP middleware that
  times every request and records a counter and a latency histogram. The embedding follows
  app.py top to bottom: configuration, the trusted-host setup, the route label, the
  endpoints, the middleware and the scrape endpoint.

  Conventions. A Python \<open>str\<close> is a \<open>string\<close>. A \<open>dict\<close> with string keys and values is an
  association list in insertion order. Whatever raises in Python returns a sum here, with
  the raised exception on the left. The readings of \<open>time.perf_counter()\<close> are arguments
  of type \<open>real\<close>; the rounding of Python floats plays no part in what follows.
\<close>

subsection \<open>Exceptions\<close>

text \<open>
  Python distinguishes instances of \<open>Exception\<close> from the other instances of
  \<open>BaseException\<close> (\<open>asyncio.CancelledError\<close>, \<open>KeyboardInterrupt\<close>, \<open>SystemExit\<close>,
  \<open>GeneratorExit\<close>). A clause \<open>except Exception\<close> catches only the former. The string is
  the name of the class.
\<close>

datatype exn = Exception string | BaseException string

fun is_Exception :: "exn \<Rightarrow> bool" where
  "is_Exception (Exception _) = True"
| "is_Exception (BaseException _) = False"

subsection \<open>Settings\<close>

record Settings =
  APP_NAME :: string
  APP_VERSION :: string
  ALLOWED_HOSTS :: string
  METRICS_ENABLED :: bool

definition default_settings :: Settings where
  "default_settings =
     \<lparr>APP_NAME = ''secure-api'', APP_VERSION = ''1.0.0'',
      ALLOWED_HOSTS = ''localhost,127.0.0.1'', METRICS_ENABLED = True\<rparr>"

subsection \<open>Requests and responses\<close>

text \<open>
  Of the ASGI scope the code reads one key, \<open>"route"\<close>. A value stored in the scope is
  either a route object, which has a \<open>path\<close> attribute holding the path template, or some
  other object without that attribute.

  \<open>request.url.path\<close> is computed by Starlette, which is not part of the repository: it
  joins the scheme, the \<open>Host\<close> header, the path and the query string of the scope into
  one URL and splits it with \<open>urlsplit\<close>. The computation raises for some requests
  (\<open>ValueError\<close> for the \<open>Host\<close> header \<open>[\<close>, \<open>UnicodeDecodeError\<close> for a query string
  that is not UTF-8). The field \<open>url_path\<close> is what the computation gives for the request:
  the path, or the exception it raises.
\<close>

datatype scope_value = APIRoute string | Opaque

record Request =
  http_method :: string
  url_path :: "exn + string"
  scope :: "string \<rightharpoonup> scope_value"

datatype content = JSON "(string \<times> string) list" | Bytes string

record Response =
  status_code :: int
  body :: content
  media_type :: string

definition JSONResponse :: "(string \<times> string) list \<Rightarrow> int \<Rightarrow> Response" where
  "JSONResponse d code = \<lparr>status_code = code, body = JSON d, media_type = ''application/json''\<rparr>"

definition Response :: "string \<Rightarrow> string \<Rightarrow> Response" where
  "Response c mt = \<lparr>status_code = 200, body = Bytes c, media_type = mt\<rparr>"

definition HTTP_500_INTERNAL_SERVER_ERROR :: int where
  "HTTP_500_INTERNAL_SERVER_ERROR = 500"

subsection \<open>Python's \<open>str\<close> on an integer\<close>

definition digit_char :: "nat \<Rightarrow> char" where
  "digit_char d = char_of (48 + d)"

fun digits :: "nat \<Rightarrow> string" where
  "digits n = (if n < 10 then [digit_char n] else digits (n div 10) @ [digit_char (n mod 10)])"

declare digits.simps [simp del]

definition str :: "int \<Rightarrow> string" where
  "str i = (if i < 0 then CHR ''-'' # digits (nat (- i)) else digits (nat i))"

subsection \<open>Trusted hosts (lines 60-61)\<close>

text \<open>
  \<open>str.split(",")\<close> cuts at every comma and always returns at least one piece.
  \<open>str.strip()\<close> removes leading and trailing whitespace; among the characters below 256
  Python counts as whitespace 9 to 13, 28 to 32, 133 and 160.
\<close>

fun split_comma :: "string \<Rightarrow> string list" where
  "split_comma [] = [[]]"
| "split_comma (c # cs) =
     (if c = CHR '','' then [] # split_comma cs
      else (case split_comma cs of [] \<Rightarrow> [[c]] | p # ps \<Rightarrow> (c # p) # ps))"

definition isspace :: "char \<Rightarrow> bool" where
  "isspace c = (let n = (of_char c :: nat) in (9 \<le> n \<and> n \<le> 13) \<or> (28 \<le> n \<and> n \<le> 32) \<or> n = 133 \<or> n = 160)"

definition strip :: "string \<Rightarrow> string" where
  "strip s = rev (dropWhile isspace (rev (dropWhile isspace s)))"

definition allowed_hosts :: "Settings \<Rightarrow> string list" where
  "allowed_hosts settings = [strip h. h \<leftarrow> split_comma (ALLOWED_HOSTS settings), strip h \<noteq> []]"

text \<open>The argument passed to \<open>TrustedHostMiddleware\<close>: \<open>allowed_hosts or ["*"]\<close>.\<close>

definition trusted_hosts :: "Settings \<Rightarrow> string list" where
  "trusted_hosts settings = (if allowed_hosts settings = [] then [''*''] else allowed_hosts settings)"

text \<open>
  Starlette's \<open>TrustedHostMiddleware\<close> is not part of the repository. Its check of the
  \<open>Host\<close> header: with \<open>"*"\<close> among the patterns every request passes (\<open>allow_any\<close>);
  otherwise the host (the header up to the first colon) must equal a pattern, or end with
  the rest of a pattern that starts with \<open>*\<close>. The second branch is that of Starlette 0.46
  and differs between versions of the library; the assertion of the constructor on the
  shape of the patterns is left out. Only the first branch is used below.
\<close>

definition host_of :: "string \<Rightarrow> string" where
  "host_of header = takeWhile (\<lambda>c. c \<noteq> CHR '':'') header"

definition endswith :: "string \<Rightarrow> string \<Rightarrow> bool" where
  "endswith s suffix = (length suffix \<le> length s \<and> drop (length s - length suffix) s = suffix)"

definition pattern_matches :: "string \<Rightarrow> string \<Rightarrow> bool" where
  "pattern_matches host pattern =
     (host = pattern \<or> (case pattern of [] \<Rightarrow> False | c # rest \<Rightarrow> c = CHR ''*'' \<and> endswith host rest))"

definition trusted_host_accepts :: "string list \<Rightarrow> string \<Rightarrow> bool" where
  "trusted_host_accepts patterns header =
     (''*'' \<in> set patterns \<or> list_ex (pattern_matches (host_of header)) patterns)"

subsection \<open>The route label (lines 85-94)\<close>

text \<open>
  \<open>request.scope.get("route").path\<close>: the lookup gives \<open>None\<close> for a missing key, and
  reading \<open>path\<close> from \<open>None\<close> or from an object without that attribute raises
  \<open>AttributeError\<close>. The fallback \<open>return request.url.path\<close> stands in the \<open>except\<close>
  clause, outside the \<open>try\<close>: what it raises leaves the function.
\<close>

fun getattr_path :: "scope_value option \<Rightarrow> exn + string" where
  "getattr_path None = Inl (Exception ''AttributeError'')"
| "getattr_path (Some Opaque) = Inl (Exception ''AttributeError'')"
| "getattr_path (Some (APIRoute p)) = Inr p"

definition route_label_from_request :: "Request \<Rightarrow> exn + string" where
  "route_label_from_request request =
     (case getattr_path (scope request ''route'') of
        Inr p \<Rightarrow> Inr p
      | Inl e \<Rightarrow> if is_Exception e then url_path request else Inl e)"

subsection \<open>Prometheus metrics (lines 70-82)\<close>

text \<open>
  \<open>prometheus_client\<close> is not part of the repository. The registry holds the two metric
  families of the spec: a counter per (route, method, code) and a histogram per
  (route, method). A histogram series is kept as the list of the values observed so far;
  its bucket counts, sum and count are functions of that list.
\<close>

record registry =
  REQUESTS :: "string \<times> string \<times> string \<rightharpoonup> nat"
  LATENCY :: "string \<times> string \<rightharpoonup> real list"

definition empty_registry :: registry where
  "empty_registry = \<lparr>REQUESTS = Map.empty, LATENCY = Map.empty\<rparr>"

definition counter_value :: "registry \<Rightarrow> string \<times> string \<times> string \<Rightarrow> nat" where
  "counter_value reg k = (case REQUESTS reg k of None \<Rightarrow> 0 | Some n \<Rightarrow> n)"

definition observations :: "registry \<Rightarrow> string \<times> string \<Rightarrow> real list" where
  "observations reg k = (case LATENCY reg k of None \<Rightarrow> [] | Some ds \<Rightarrow> ds)"

text \<open>
  Modelled from the spec: \<open>MetricRegistry.incrementRequest\<close> (what
  \<open>REQUESTS.labels(route, method, code).inc()\<close> does in the library): increments the
  counter series for that exact label triple, creating it on first use, initialized to 0
  then incremented to 1.
\<close>

definition incrementRequest :: "string \<Rightarrow> string \<Rightarrow> string \<Rightarrow> registry \<Rightarrow> registry" where
  "incrementRequest route method code reg =
     reg\<lparr>REQUESTS := (REQUESTS reg)((route, method, code) \<mapsto> counter_value reg (route, method, code) + 1)\<rparr>"

text \<open>
  Modelled from the spec: \<open>MetricRegistry.observeLatency\<close> (what
  \<open>LATENCY.labels(route, method).observe(duration)\<close> does in the library): appends the
  observation to the histogram series for (route, method).
\<close>

definition observeLatency :: "string \<Rightarrow> string \<Rightarrow> real \<Rightarrow> registry \<Rightarrow> registry" where
  "observeLatency route method duration reg =
     reg\<lparr>LATENCY := (LATENCY reg)((route, method) \<mapsto> observations reg (route, method) @ [duration])\<rparr>"

text \<open>
  The middleware takes the two calls on the metrics as a parameter. A call returns the
  updated registry, or \<open>None\<close> when it raises an \<open>Exception\<close> (and then leaves the
  registry as it was). The guarded block has no \<open>await\<close>, so no cancellation is
  delivered inside it.
\<close>

record metric_calls =
  LATENCY_observe :: "string \<Rightarrow> string \<Rightarrow> real \<Rightarrow> registry \<Rightarrow> registry option"
  REQUESTS_inc :: "string \<Rightarrow> string \<Rightarrow> string \<Rightarrow> registry \<Rightarrow> registry option"

text \<open>The library as the spec describes it: neither call raises.\<close>

definition prometheus :: metric_calls where
  "prometheus =
     \<lparr>LATENCY_observe = (\<lambda>route method duration reg. Some (observeLatency route method duration reg)),
      REQUESTS_inc = (\<lambda>route method code reg. Some (incrementRequest route method code reg))\<rparr>"

text \<open>A library in which every call on a metric raises.\<close>

definition broken_metrics :: metric_calls where
  "broken_metrics =
     \<lparr>LATENCY_observe = (\<lambda>route method duration reg. None),
      REQUESTS_inc = (\<lambda>route method code reg. None)\<rparr>"

subsection \<open>The state the service works on\<close>

record world =
  metrics_registry :: registry
  log_records :: "string list"

subsection \<open>Endpoints (lines 100-142 and 188-197)\<close>

record Echo =
  message :: string

definition live :: "Settings \<Rightarrow> (string \<times> string) list" where
  "live settings =
     [(''status'', ''alive''), (''app'', APP_NAME settings), (''version'', APP_VERSION settings)]"

definition ready :: "(string \<times> string) list" where
  "ready = [(''status'', ''ready'')]"

definition health :: "(string \<times> string) list" where
  "health = [(''status'', ''ok'')]"

definition echo :: "Echo \<Rightarrow> (string \<times> string) list" where
  "echo payload = [(''echo'', message payload)]"

text \<open>
  The scrape endpoint reads the registry through the library's \<open>generate_latest()\<close> and
  labels the body with the library's constant \<open>CONTENT_TYPE_LATEST\<close>; both are
  parameters. It returns the response together with the registry it leaves behind.
\<close>

definition metrics ::
  "(registry \<Rightarrow> string) \<Rightarrow> string \<Rightarrow> Settings \<Rightarrow> registry \<Rightarrow> Response \<times> registry" where
  "metrics generate_latest CONTENT_TYPE_LATEST settings reg =
     (if \<not> METRICS_ENABLED settings
      then (JSONResponse [(''detail'', ''metrics disabled'')] 404, reg)
      else (Response (generate_latest reg) CONTENT_TYPE_LATEST, reg))"

text \<open>
  The five routes the decorators declare, each with its path template. FastAPI
  turns a returned \<open>dict\<close> into a JSON response with status 200 and passes a returned
  response object on as it is. The \<open>Echo\<close> payload is the request body after validation.
\<close>

datatype endpoint = Live | Ready | Health | EchoEndpoint Echo | Metrics

fun endpoint_path :: "endpoint \<Rightarrow> string" where
  "endpoint_path Live = ''/live''"
| "endpoint_path Ready = ''/ready''"
| "endpoint_path Health = ''/health''"
| "endpoint_path (EchoEndpoint _) = ''/echo''"
| "endpoint_path Metrics = ''/metrics''"

fun run_endpoint ::
  "(registry \<Rightarrow> string) \<Rightarrow> string \<Rightarrow> Settings \<Rightarrow> endpoint \<Rightarrow> world \<Rightarrow> Response \<times> world" where
  "run_endpoint gen ctype settings Live w = (JSONResponse (live settings) 200, w)"
| "run_endpoint gen ctype settings Ready w = (JSONResponse ready 200, w)"
| "run_endpoint gen ctype settings Health w = (JSONResponse health 200, w)"
| "run_endpoint gen ctype settings (EchoEndpoint payload) w = (JSONResponse (echo payload) 200, w)"
| "run_endpoint gen ctype settings Metrics w =
     (case metrics gen ctype settings (metrics_registry w) of
        (response, reg) \<Rightarrow> (response, w\<lparr>metrics_registry := reg\<rparr>))"

text \<open>
  Dispatch. The router runs inside \<open>call_next\<close>. When a route matches, FastAPI's
  \<open>APIRoute.matches\<close> stores the route object under \<open>"route"\<close> in the scope, the
  dictionary \<open>request.scope\<close> refers to. The metrics middleware is registered last, which
  makes it the outermost one: the scope it is entered with holds no route yet. The router
  matches the path without the root path the application is served under, while
  \<open>request.url.path\<close> comes from the whole path.
\<close>

definition scope_after_dispatch :: "endpoint \<Rightarrow> Request \<Rightarrow> string \<rightharpoonup> scope_value" where
  "scope_after_dispatch ep request = (scope request)(''route'' \<mapsto> APIRoute (endpoint_path ep))"

text \<open>The rest of the pipeline when the router has picked an endpoint of the application.\<close>

definition call_endpoint ::
  "(registry \<Rightarrow> string) \<Rightarrow> string \<Rightarrow> Settings \<Rightarrow> endpoint \<Rightarrow> Request \<Rightarrow> world \<Rightarrow> (exn + Response) \<times> world" where
  "call_endpoint gen ctype settings ep request w =
     (case run_endpoint gen ctype settings ep w of (response, w1) \<Rightarrow> (Inr response, w1))"

text \<open>A pipeline that raises the given exception and leaves the world alone.\<close>

definition call_raises :: "exn \<Rightarrow> Request \<Rightarrow> world \<Rightarrow> (exn + Response) \<times> world" where
  "call_raises exc request w = (Inl exc, w)"

subsection \<open>The metrics middleware (lines 148-182)\<close>

text \<open>
  The coroutine has one \<open>await\<close>. What it does before is \<open>middleware_enter\<close>: it keeps
  the start time, the route label and the method. What it does after, with the outcome of
  \<open>call_next\<close>, is \<open>middleware_exit\<close>: the \<open>try\<close>/\<open>except\<close> around the outcome and the
  \<open>finally\<close> block.
\<close>

record pending =
  start :: real
  route_label :: string
  request_method :: string

definition middleware_enter :: "real \<Rightarrow> Request \<Rightarrow> exn + pending" where
  "middleware_enter t0 request =
     (case route_label_from_request request of
        Inl e \<Rightarrow> Inl e
      | Inr label \<Rightarrow> Inr \<lparr>start = t0, route_label = label, request_method = http_method request\<rparr>)"

text \<open>
  The \<open>try\<close> and \<open>except\<close> clauses give what the coroutine will return (or the exception
  that propagates) and the local variable \<open>code\<close>, which stays unbound when neither
  clause assigns it.
\<close>

definition handle_outcome :: "exn + Response \<Rightarrow> world \<Rightarrow> (exn + Response) \<times> int option \<times> world" where
  "handle_outcome outcome w =
     (case outcome of
        Inr response \<Rightarrow> (Inr response, Some (status_code response), w)
      | Inl exc \<Rightarrow>
          if is_Exception exc
          then (Inr (JSONResponse [(''detail'', ''Internal Server Error'')] HTTP_500_INTERNAL_SERVER_ERROR),
                Some HTTP_500_INTERNAL_SERVER_ERROR,
                w\<lparr>log_records := log_records w @ [''Unhandled exception while processing request'']\<rparr>)
          else (Inl exc, None, w))"

text \<open>
  The guarded block inside \<open>finally\<close>. Reading an unbound \<open>code\<close> raises
  \<open>UnboundLocalError\<close>, an \<open>Exception\<close>, like a raising library call; \<open>except Exception: pass\<close>
  ends the block at the first of them.
\<close>

definition record_metrics ::
  "metric_calls \<Rightarrow> string \<Rightarrow> string \<Rightarrow> int option \<Rightarrow> real \<Rightarrow> registry \<Rightarrow> registry" where
  "record_metrics lib label meth code duration reg =
     (case LATENCY_observe lib label meth duration reg of
        None \<Rightarrow> reg
      | Some reg1 \<Rightarrow>
          (case code of
             None \<Rightarrow> reg1
           | Some c \<Rightarrow>
               (case REQUESTS_inc lib label meth (str c) reg1 of
                  None \<Rightarrow> reg1
                | Some reg2 \<Rightarrow> reg2)))"

definition middleware_exit ::
  "metric_calls \<Rightarrow> pending \<Rightarrow> real \<Rightarrow> exn + Response \<Rightarrow> world \<Rightarrow> (exn + Response) \<times> world" where
  "middleware_exit lib p t1 outcome w =
     (case handle_outcome outcome w of
        (result, code, w1) \<Rightarrow>
          (let duration = t1 - start p
           in (result,
               w1\<lparr>metrics_registry :=
                    record_metrics lib (route_label p) (request_method p) code duration (metrics_registry w1)\<rparr>)))"

text \<open>
  The whole coroutine for one request: \<open>t0\<close> and \<open>t1\<close> are the two clock readings and
  \<open>call_next\<close> is the rest of the pipeline, which may raise and may change the world.
\<close>

definition metrics_middleware ::
  "metric_calls \<Rightarrow> (Request \<Rightarrow> world \<Rightarrow> (exn + Response) \<times> world) \<Rightarrow> real \<Rightarrow> real \<Rightarrow>
     Request \<Rightarrow> world \<Rightarrow> (exn + Response) \<times> world" where
  "metrics_middleware lib call_next t0 t1 request w =
     (case middleware_enter t0 request of
        Inl e \<Rightarrow> (Inl e, w)
      | Inr p \<Rightarrow>
          (case call_next request w of
             (outcome, w1) \<Rightarrow> middleware_exit lib p t1 outcome w1))"

subsection \<open>Requests in flight at the same time\<close>

text \<open>
  The server runs one coroutine per request on one event loop, so the coroutines
  interleave at their \<open>await\<close> only: a request arrives and runs up to the \<open>await\<close>, and
  later its \<open>call_next\<close> completes and the coroutine runs to its end. Requests are told
  apart by a number. An event that names a request already in flight, or completes one
  that is not, is not part of any run. A request whose label derivation raises leaves
  nothing in flight.
\<close>

datatype event = Arrive nat Request real | Complete nat "exn + Response" real

record system =
  in_flight :: "nat \<rightharpoonup> pending"
  shared :: world

fun step :: "metric_calls \<Rightarrow> event \<Rightarrow> system \<Rightarrow> system option" where
  "step lib (Arrive i request t0) s =
     (case in_flight s i of
        Some _ \<Rightarrow> None
      | None \<Rightarrow>
          (case middleware_enter t0 request of
             Inl e \<Rightarrow> Some s
           | Inr p \<Rightarrow> Some (s\<lparr>in_flight := (in_flight s)(i \<mapsto> p)\<rparr>)))"
| "step lib (Complete i outcome t1) s =
     (case in_flight s i of
        None \<Rightarrow> None
      | Some p \<Rightarrow>
          Some \<lparr>in_flight = (in_flight s)(i := None),
                shared = snd (middleware_exit lib p t1 outcome (shared s))\<rparr>)"

fun run :: "metric_calls \<Rightarrow> event list \<Rightarrow> system \<Rightarrow> system option" where
  "run lib [] s = Some s"
| "run lib (e # es) s = (case step lib e s of None \<Rightarrow> None | Some s1 \<Rightarrow> run lib es s1)"

fun is_Arrive :: "event \<Rightarrow> bool" where
  "is_Arrive (Arrive _ _ _) = True"
| "is_Arrive (Complete _ _ _) = False"

text \<open>
  An event belongs to the label triple (route, method, code) when it is the arrival of a
  request with that route label and method, or a completion whose response has that
  status code; a caught exception counts as status 500.
\<close>

fun resolves_to :: "string \<times> string \<times> string \<Rightarrow> event \<Rightarrow> bool" where
  "resolves_to (l, m, k) (Arrive i request t0) =
     (route_label_from_request request = Inr l \<and> http_method request = m)"
| "resolves_to (l, m, k) (Complete i outcome t1) =
     (case outcome of
        Inr response \<Rightarrow> str (status_code response) = k
      | Inl exc \<Rightarrow> is_Exception exc \<and> str HTTP_500_INTERNAL_SERVER_ERROR = k)"

subsection \<open>Example inputs\<close>

text \<open>
  A request for \<open>/live\<close> as the middleware sees it (the router has not run yet, so the
  scope holds no route), and the world of a process that has just started.
\<close>

definition get_live :: Request where
  "get_live = \<lparr>http_method = ''GET'', url_path = Inr ''/live'', scope = Map.empty\<rparr>"

text \<open>
  \<open>POST /echo\<close>, and the same request to the application served under the root path
  \<open>/api\<close>, again as the middleware sees them.
\<close>

definition post_echo :: Request where
  "post_echo = \<lparr>http_method = ''POST'', url_path = Inr ''/echo'', scope = Map.empty\<rparr>"

definition post_api_echo :: Request where
  "post_api_echo = \<lparr>http_method = ''POST'', url_path = Inr ''/api/echo'', scope = Map.empty\<rparr>"


text \<open>A renderer for the examples: it renders every registry as the empty text.\<close>

definition render_nothing :: "registry \<Rightarrow> string" where
  "render_nothing reg = []"

definition fresh_world :: world where
  "fresh_world = \<lparr>metrics_registry = empty_registry, log_records = []\<rparr>"

text \<open>
  Two requests for \<open>/live\<close> in flight at the same time; the second to arrive completes
  first.
\<close>

definition two_overlapping_requests :: "event list" where
  "two_overlapping_requests =
     [Arrive 0 get_live 1, Arrive 1 get_live 2,
      Complete 1 (Inr (JSONResponse (live default_settings) 200)) 3,
      Complete 0 (Inr (JSONResponse (live default_settings) 200)) 4]"

section \<open>Properties\<close>

subsection \<open>Auxiliary facts\<close>

lemma str_500: "str 500 = ''500''"
  by code_simp

lemma route_label_from_request_eq:
  "route_label_from_request request =
     (case scope request ''route'' of Some (APIRoute p) \<Rightarrow> Inr p | _ \<Rightarrow> url_path request)"
proof (cases "scope request ''route''")
  case None
  then show ?thesis by (simp add: route_label_from_request_def)
next
  case (Some v)
  then show ?thesis by (cases v) (simp_all add: route_label_from_request_def)
qed

lemma middleware_enter_eq:
  "route_label_from_request request = Inr label \<Longrightarrow>
   middleware_enter t0 request = Inr \<lparr>start = t0, route_label = label, request_method = http_method request\<rparr>"
  by (simp add: middleware_enter_def)

lemma handle_outcome_result:
  "fst (handle_outcome outcome w) =
     (case outcome of
        Inr response \<Rightarrow> Inr response
      | Inl exc \<Rightarrow> if is_Exception exc
                   then Inr (JSONResponse [(''detail'', ''Internal Server Error'')] 500)
                   else Inl exc)"
  by (simp add: handle_outcome_def HTTP_500_INTERNAL_SERVER_ERROR_def split: sum.splits)

lemma middleware_exit_result:
  "fst (middleware_exit lib p t1 outcome w) = fst (handle_outcome outcome w)"
  by (simp add: middleware_exit_def split: prod.splits)

lemma record_metrics_prometheus:
  "record_metrics prometheus l m (Some c) d reg = incrementRequest l m (str c) (observeLatency l m d reg)"
  by (simp add: record_metrics_def prometheus_def)

lemma record_metrics_prometheus_unbound:
  "record_metrics prometheus l m None d reg = observeLatency l m d reg"
  by (simp add: record_metrics_def prometheus_def)

lemma metrics_middleware_eq:
  assumes "route_label_from_request request = Inr label"
      and "call_next request w = (outcome, w1)"
  shows "metrics_middleware lib call_next t0 t1 request w =
           middleware_exit lib \<lparr>start = t0, route_label = label, request_method = http_method request\<rparr> t1 outcome w1"
  using assms by (simp add: metrics_middleware_def middleware_enter_eq)

lemma label_failure_propagates:
  "route_label_from_request request = Inl e \<Longrightarrow>
   metrics_middleware lib call_next t0 t1 request w = (Inl e, w)"
  by (simp add: metrics_middleware_def middleware_enter_def)

lemma str_200: "str 200 = ''200''"
  by code_simp

lemma all_after_dropWhile: "(\<forall>x \<in> set (dropWhile P s). P x) \<longleftrightarrow> (\<forall>x \<in> set s. P x)"
  by (induction s) auto

lemma strip_empty_iff: "strip s = [] \<longleftrightarrow> (\<forall>c \<in> set s. isspace c)"
  by (simp add: strip_def all_after_dropWhile)

lemma comprehension_map_filter: "[f h. h \<leftarrow> hs, P h] = map f (filter P hs)"
  by (induction hs) auto

lemma split_comma_not_Nil: "split_comma s \<noteq> []"
  by (induction s) (auto split: list.splits)

lemma split_comma_chars: "\<Union> (set ` set (split_comma s)) = set s - {CHR '',''}"
proof (induction s)
  case Nil
  then show ?case by simp
next
  case (Cons c cs)
  then show ?case
    using split_comma_not_Nil [of cs]
    by (cases "split_comma cs") auto
qed

lemma allowed_hosts_empty_iff:
  "allowed_hosts settings = [] \<longleftrightarrow> (\<forall>c \<in> set (ALLOWED_HOSTS settings). c = CHR '','' \<or> isspace c)"
proof -
  have "allowed_hosts settings = [] \<longleftrightarrow>
      (\<forall>h \<in> set (split_comma (ALLOWED_HOSTS settings)). \<forall>c \<in> set h. isspace c)"
    by (simp add: allowed_hosts_def comprehension_map_filter strip_empty_iff filter_empty_conv)
  also have "\<dots> \<longleftrightarrow> (\<forall>c \<in> \<Union> (set ` set (split_comma (ALLOWED_HOSTS settings))). isspace c)"
    by blast
  also have "\<dots> \<longleftrightarrow> (\<forall>c \<in> set (ALLOWED_HOSTS settings). c = CHR '','' \<or> isspace c)"
    unfolding split_comma_chars by blast
  finally show ?thesis .
qed

lemma counter_after_exit:
  assumes "resolves_to (l, m, k) (Complete i outcome t1)"
      and "route_label p = l" and "request_method p = m"
  shows "counter_value (metrics_registry (snd (middleware_exit prometheus p t1 outcome w))) (l, m, k) =
           counter_value (metrics_registry w) (l, m, k) + 1"
proof (cases outcome)
  case (Inr response)
  with assms show ?thesis
    by (simp add: middleware_exit_def handle_outcome_def record_metrics_prometheus
        incrementRequest_def observeLatency_def counter_value_def)
next
  case (Inl exc)
  with assms show ?thesis
    by (simp add: middleware_exit_def handle_outcome_def record_metrics_prometheus
        incrementRequest_def observeLatency_def counter_value_def)
qed

lemma run_counts:
  assumes "run prometheus evs s = Some s'"
      and "list_all (resolves_to (l, m, k)) evs"
      and "\<forall>i p. in_flight s i = Some p \<longrightarrow> route_label p = l \<and> request_method p = m"
      and "finite (dom (in_flight s))"
  shows "counter_value (metrics_registry (shared s')) (l, m, k) + card (dom (in_flight s')) =
           counter_value (metrics_registry (shared s)) (l, m, k) + card (dom (in_flight s)) +
           length (filter is_Arrive evs)"
  using assms
proof (induction evs arbitrary: s)
  case Nil
  then show ?case by simp
next
  case (Cons e es)
  from Cons.prems(1) obtain s1 where s1: "step prometheus e s = Some s1" and r: "run prometheus es s1 = Some s'"
    by (auto split: option.splits)
  from Cons.prems(2) have e: "resolves_to (l, m, k) e" and es: "list_all (resolves_to (l, m, k)) es"
    by simp_all
  show ?case
  proof (cases e)
    case (Arrive i request t0)
    from s1 Arrive have free: "in_flight s i = None"
      by (auto split: option.splits)
    from e Arrive have lab: "route_label_from_request request = Inr l" and meth: "http_method request = m"
      by simp_all
    let ?p = "\<lparr>start = t0, route_label = l, request_method = m\<rparr>"
    from s1 Arrive free lab meth have s1_eq: "s1 = s\<lparr>in_flight := (in_flight s)(i \<mapsto> ?p)\<rparr>"
      by (simp add: middleware_enter_def)
    have inv: "\<forall>j p. in_flight s1 j = Some p \<longrightarrow> route_label p = l \<and> request_method p = m"
      using Cons.prems(3) by (simp add: s1_eq)
    have fin: "finite (dom (in_flight s1))"
      using Cons.prems(4) by (simp add: s1_eq)
    have card: "card (dom (in_flight s1)) = card (dom (in_flight s)) + 1"
      using Cons.prems(4) free by (simp add: s1_eq domIff)
    have sh: "shared s1 = shared s"
      by (simp add: s1_eq)
    from Cons.IH [OF r es inv fin] show ?thesis
      by (simp add: Arrive card sh)
  next
    case (Complete i outcome t1)
    from s1 Complete obtain p where p: "in_flight s i = Some p"
      by (auto split: option.splits)
    from s1 Complete p have s1_eq:
      "s1 = \<lparr>in_flight = (in_flight s)(i := None),
             shared = snd (middleware_exit prometheus p t1 outcome (shared s))\<rparr>"
      by simp
    from Cons.prems(3) p have pl: "route_label p = l" and pm: "request_method p = m"
      by auto
    have inv: "\<forall>j q. in_flight s1 j = Some q \<longrightarrow> route_label q = l \<and> request_method q = m"
      using Cons.prems(3) by (simp add: s1_eq)
    have fin: "finite (dom (in_flight s1))"
      using Cons.prems(4) by (simp add: s1_eq)
    have mem: "i \<in> dom (in_flight s)"
      using p by auto
    from Cons.prems(4) mem have "Suc (card (dom (in_flight s) - {i})) = card (dom (in_flight s))"
      by (rule card_Suc_Diff1)
    then have card: "card (dom (in_flight s1)) + 1 = card (dom (in_flight s))"
      by (simp add: s1_eq)
    have cnt: "counter_value (metrics_registry (shared s1)) (l, m, k) =
        counter_value (metrics_registry (shared s)) (l, m, k) + 1"
      using counter_after_exit [OF _ pl pm] e Complete by (simp add: s1_eq)
    from Cons.IH [OF r es inv fin] show ?thesis
      using card cnt by (simp add: Complete)
  qed
qed

subsection \<open>Recording once per request\<close>

text \<open>
  With the library of the spec, a request whose pipeline returns a response or raises an
  instance of \<open>Exception\<close> (so that \<open>code\<close> is bound) leaves one more latency
  observation and one more counter increment, under its route label, its method and its
  status code.
\<close>

lemma handled_request_recorded_once:
  assumes "route_label_from_request request = Inr label"
      and "call_next request w = (outcome, w1)"
      and "handle_outcome outcome w1 = (result, Some c, w2)"
  shows "metrics_registry (snd (metrics_middleware prometheus call_next t0 t1 request w)) =
           incrementRequest label (http_method request) (str c)
             (observeLatency label (http_method request) (t1 - t0) (metrics_registry w1))"
proof -
  have m: "metrics_middleware prometheus call_next t0 t1 request w =
      middleware_exit prometheus
        \<lparr>start = t0, route_label = label, request_method = http_method request\<rparr> t1 outcome w1"
    using assms(1) assms(2) by (rule metrics_middleware_eq)
  have "metrics_registry w2 = metrics_registry w1"
    using assms(3) by (auto simp: handle_outcome_def split: sum.splits if_splits)
  then show ?thesis
    using assms(3) by (simp add: m middleware_exit_def record_metrics_prometheus)
qed

text \<open>
  C1: every request is to record exactly one counter increment and exactly one latency
  observation, whether the pipeline returns or raises. The code does not do so for a
  request whose \<open>call_next\<close> raises an exception outside \<open>Exception\<close>, such as
  \<open>asyncio.CancelledError\<close>: \<open>except Exception\<close> does not run, \<open>code\<close> stays unbound,
  the \<open>finally\<close> block records the latency, and \<open>str(code)\<close> raises inside the guarded
  block before the counter is reached. On a fresh registry a cancelled \<open>GET /live\<close>
  leaves one observation and no counter series.
\<close>

theorem cancelled_request_counter_not_incremented:
  "metrics_middleware prometheus (call_raises (BaseException ''CancelledError'')) 1 3 get_live fresh_world =
     (Inl (BaseException ''CancelledError''),
      \<lparr>metrics_registry = \<lparr>REQUESTS = Map.empty, LATENCY = [(''/live'', ''GET'') \<mapsto> [2]]\<rparr>,
       log_records = []\<rparr>)"
  by (simp add: metrics_middleware_def middleware_enter_def route_label_from_request_def get_live_def
      fresh_world_def call_raises_def middleware_exit_def handle_outcome_def
      record_metrics_prometheus_unbound observeLatency_def observations_def empty_registry_def)

subsection \<open>The response for a failed handler\<close>

text \<open>
  C2, amended: for every request whose pipeline raises an instance of \<open>Exception\<close>, the
  middleware returns the response with status 500 and JSON body
  \<open>{"detail": "Internal Server Error"}\<close>, and the counter for the request's route label,
  its method and code \<open>"500"\<close> goes up by one (next to one latency observation). The
  pipeline is called once the route label has been derived; the first hypothesis names
  the label.
\<close>

theorem handler_exception_gives_500:
  assumes "route_label_from_request request = Inr label"
      and "call_next request w = (Inl exc, w1)" and "is_Exception exc"
  shows "fst (metrics_middleware prometheus call_next t0 t1 request w) =
           Inr (JSONResponse [(''detail'', ''Internal Server Error'')] 500) \<and>
         metrics_registry (snd (metrics_middleware prometheus call_next t0 t1 request w)) =
           incrementRequest label (http_method request) ''500''
             (observeLatency label (http_method request) (t1 - t0) (metrics_registry w1)) \<and>
         counter_value (metrics_registry (snd (metrics_middleware prometheus call_next t0 t1 request w)))
             (label, http_method request, ''500'') =
           counter_value (metrics_registry w1) (label, http_method request, ''500'') + 1"
proof -
  have m: "metrics_middleware prometheus call_next t0 t1 request w =
      middleware_exit prometheus \<lparr>start = t0, route_label = label, request_method = http_method request\<rparr> t1 (Inl exc) w1"
    using assms(1) assms(2) by (rule metrics_middleware_eq)
  have r: "metrics_registry (snd (metrics_middleware prometheus call_next t0 t1 request w)) =
             incrementRequest label (http_method request) ''500''
               (observeLatency label (http_method request) (t1 - t0) (metrics_registry w1))"
    using assms(3)
    by (simp add: m middleware_exit_def handle_outcome_def record_metrics_prometheus
        HTTP_500_INTERNAL_SERVER_ERROR_def str_500)
  have f: "fst (metrics_middleware prometheus call_next t0 t1 request w) =
             Inr (JSONResponse [(''detail'', ''Internal Server Error'')] 500)"
    using assms(3) by (simp add: m middleware_exit_result handle_outcome_result)
  have c: "counter_value (metrics_registry (snd (metrics_middleware prometheus call_next t0 t1 request w)))
               (label, http_method request, ''500'') =
             counter_value (metrics_registry w1) (label, http_method request, ''500'') + 1"
    by (simp add: r incrementRequest_def observeLatency_def counter_value_def)
  from f r c show ?thesis by blast
qed

text \<open>A handler that raises \<open>ValueError\<close> on a fresh registry.\<close>

theorem handler_exception_gives_500_witness:
  "route_label_from_request get_live = Inr ''/live'' \<and>
   call_raises (Exception ''ValueError'') get_live fresh_world = (Inl (Exception ''ValueError''), fresh_world) \<and>
   is_Exception (Exception ''ValueError'') \<and>
   fst (metrics_middleware prometheus (call_raises (Exception ''ValueError'')) 1 3 get_live fresh_world) =
     Inr (JSONResponse [(''detail'', ''Internal Server Error'')] 500) \<and>
   counter_value (metrics_registry (snd (metrics_middleware prometheus
       (call_raises (Exception ''ValueError'')) 1 3 get_live fresh_world))) (''/live'', ''GET'', ''500'') = 1"
proof -
  have c: "call_raises (Exception ''ValueError'') get_live fresh_world = (Inl (Exception ''ValueError''), fresh_world)"
    by (simp add: call_raises_def)
  have e: "is_Exception (Exception ''ValueError'')"
    by simp
  have l: "route_label_from_request get_live = Inr ''/live''"
    by (simp add: route_label_from_request_def get_live_def)
  have m: "http_method get_live = ''GET''"
    by (simp add: get_live_def)
  have z: "counter_value (metrics_registry fresh_world) (''/live'', ''GET'', ''500'') = 0"
    by (simp add: fresh_world_def empty_registry_def counter_value_def)
  from handler_exception_gives_500
      [where call_next = "call_raises (Exception ''ValueError'')" and ?t0.0 = 1 and ?t1.0 = 3, OF l c e]
    l m z c e
  show ?thesis
    by auto
qed

text \<open>
  C2 does not hold for every raised exception: when the request is cancelled the pipeline
  has raised, and the middleware neither returns the 500 response nor increments the
  counter for code 500.
\<close>

theorem handler_exception_counterexample:
  "fst (metrics_middleware prometheus (call_raises (BaseException ''CancelledError'')) 1 3 get_live fresh_world)
     \<noteq> Inr (JSONResponse [(''detail'', ''Internal Server Error'')] 500)
   \<and> counter_value (metrics_registry (snd (metrics_middleware prometheus
        (call_raises (BaseException ''CancelledError'')) 1 3 get_live fresh_world))) (''/live'', ''GET'', ''500'') = 0"
  by (simp add: metrics_middleware_def middleware_enter_def route_label_from_request_def get_live_def
      fresh_world_def call_raises_def middleware_exit_def handle_outcome_def
      record_metrics_prometheus_unbound observeLatency_def observations_def empty_registry_def counter_value_def)

subsection \<open>The route label\<close>

text \<open>
  What the function returns: the path template of the route held in the scope, when
  there is one, and otherwise whatever \<open>request.url.path\<close> gives.
\<close>

lemma route_label_template_or_url_path:
  "(\<forall>p. scope request ''route'' = Some (APIRoute p) \<longrightarrow> route_label_from_request request = Inr p) \<and>
   ((\<forall>p. scope request ''route'' \<noteq> Some (APIRoute p)) \<longrightarrow>
      route_label_from_request request = url_path request)"
  by (simp add: route_label_from_request_eq split: option.splits scope_value.splits)

text \<open>
  C3: the label used for the metrics is to be the path template of the route matched
  during dispatch. The code does not do so: the middleware derives the label before
  \<open>call_next\<close>, when the scope holds no route, and keeps it. A \<open>POST\<close> to the echo
  endpoint of the application served under \<open>/api\<close> is matched to the route \<open>/echo\<close>
  during dispatch, after which the function would return \<open>/echo\<close>; the request is
  counted and timed under the raw path \<open>/api/echo\<close>, and nothing is recorded under
  \<open>/echo\<close>.
\<close>

theorem echo_request_recorded_under_raw_path:
  "scope post_api_echo ''route'' = None \<and>
   scope_after_dispatch (EchoEndpoint \<lparr>message = ''hi''\<rparr>) post_api_echo ''route'' = Some (APIRoute ''/echo'') \<and>
   route_label_from_request
     (post_api_echo\<lparr>scope := scope_after_dispatch (EchoEndpoint \<lparr>message = ''hi''\<rparr>) post_api_echo\<rparr>) =
     Inr ''/echo'' \<and>
   metrics_middleware prometheus
       (call_endpoint render_nothing [] default_settings (EchoEndpoint \<lparr>message = ''hi''\<rparr>))
       1 3 post_api_echo fresh_world =
     (Inr (JSONResponse [(''echo'', ''hi'')] 200),
      \<lparr>metrics_registry =
         \<lparr>REQUESTS = [(''/api/echo'', ''POST'', ''200'') \<mapsto> 1],
          LATENCY = [(''/api/echo'', ''POST'') \<mapsto> [2]]\<rparr>,
       log_records = []\<rparr>)"
proof -
  have a: "scope post_api_echo ''route'' = None"
    by (simp add: post_api_echo_def)
  have b: "scope_after_dispatch (EchoEndpoint \<lparr>message = ''hi''\<rparr>) post_api_echo ''route'' =
      Some (APIRoute ''/echo'')"
    by (simp add: scope_after_dispatch_def)
  have c: "route_label_from_request
      (post_api_echo\<lparr>scope := scope_after_dispatch (EchoEndpoint \<lparr>message = ''hi''\<rparr>) post_api_echo\<rparr>) =
      Inr ''/echo''"
    by (simp add: route_label_from_request_def scope_after_dispatch_def)
  have l: "route_label_from_request post_api_echo = Inr ''/api/echo''"
    by (simp add: route_label_from_request_def post_api_echo_def)
  have n: "call_endpoint render_nothing [] default_settings (EchoEndpoint \<lparr>message = ''hi''\<rparr>)
      post_api_echo fresh_world = (Inr (JSONResponse [(''echo'', ''hi'')] 200), fresh_world)"
    by (simp add: call_endpoint_def echo_def)
  have d: "metrics_middleware prometheus
       (call_endpoint render_nothing [] default_settings (EchoEndpoint \<lparr>message = ''hi''\<rparr>))
       1 3 post_api_echo fresh_world =
     (Inr (JSONResponse [(''echo'', ''hi'')] 200),
      \<lparr>metrics_registry =
         \<lparr>REQUESTS = [(''/api/echo'', ''POST'', ''200'') \<mapsto> 1],
          LATENCY = [(''/api/echo'', ''POST'') \<mapsto> [2]]\<rparr>,
       log_records = []\<rparr>)"
    unfolding metrics_middleware_eq
        [where call_next = "call_endpoint render_nothing [] default_settings (EchoEndpoint \<lparr>message = ''hi''\<rparr>)",
         OF l n]
    by (simp add: middleware_exit_def handle_outcome_def record_metrics_prometheus incrementRequest_def
        observeLatency_def observations_def counter_value_def fresh_world_def empty_registry_def
        JSONResponse_def str_200 post_api_echo_def)
  from a b c d show ?thesis by blast
qed




subsection \<open>Faults in the recording step\<close>

text \<open>
  C4: whatever the calls on the metrics do, raising included, the middleware returns what
  it returns with a library that never raises: the response of the pipeline unchanged, or
  the substituted 500 response; an exception of the recording step never reaches the
  caller. (When the route label cannot be derived the pipeline is not called and there is
  no recording step.)
\<close>

theorem metrics_fault_never_fails_request:
  assumes "call_next request w = (outcome, w1)"
  shows "fst (metrics_middleware lib call_next t0 t1 request w) =
           fst (metrics_middleware prometheus call_next t0 t1 request w) \<and>
         fst (metrics_middleware lib call_next t0 t1 request w) =
           (case route_label_from_request request of
              Inl e \<Rightarrow> Inl e
            | Inr label \<Rightarrow>
                (case outcome of
                   Inr response \<Rightarrow> Inr response
                 | Inl exc \<Rightarrow> if is_Exception exc
                              then Inr (JSONResponse [(''detail'', ''Internal Server Error'')] 500)
                              else Inl exc)) \<and>
         log_records (snd (metrics_middleware lib call_next t0 t1 request w)) =
           log_records (snd (metrics_middleware prometheus call_next t0 t1 request w))"
proof (cases "route_label_from_request request")
  case (Inl e)
  then show ?thesis
    by (simp add: metrics_middleware_def middleware_enter_def)
next
  case (Inr label)
  have m: "metrics_middleware lib' call_next t0 t1 request w =
      middleware_exit lib' \<lparr>start = t0, route_label = label, request_method = http_method request\<rparr> t1 outcome w1"
    for lib'
    using Inr assms by (rule metrics_middleware_eq)
  have lg: "log_records (snd (middleware_exit lib' p t1 outcome w1)) =
      log_records (snd (snd (handle_outcome outcome w1)))" for lib' p
    by (simp add: middleware_exit_def split: prod.splits)
  show ?thesis
    by (simp add: Inr m middleware_exit_result handle_outcome_result lg)
qed

text \<open>With a library in which every call raises, \<open>/health\<close> and a failing handler.\<close>

theorem metrics_fault_never_fails_request_witness:
  "fst (metrics_middleware broken_metrics (call_endpoint (\<lambda>reg. []) [] default_settings Health) 1 3 get_live fresh_world)
     = Inr (JSONResponse [(''status'', ''ok'')] 200) \<and>
   fst (metrics_middleware broken_metrics (call_raises (Exception ''ValueError'')) 1 3 get_live fresh_world)
     = Inr (JSONResponse [(''detail'', ''Internal Server Error'')] 500)"
  using metrics_fault_never_fails_request
      [of "call_endpoint (\<lambda>reg. []) [] default_settings Health" get_live fresh_world
          "Inr (JSONResponse [(''status'', ''ok'')] 200)" fresh_world broken_metrics 1 3,
       THEN conjunct2, THEN conjunct1]
    metrics_fault_never_fails_request
      [of "call_raises (Exception ''ValueError'')" get_live fresh_world
          "Inl (Exception ''ValueError'')" fresh_world broken_metrics 1 3,
       THEN conjunct2, THEN conjunct1]
  by (simp add: call_endpoint_def call_raises_def health_def route_label_from_request_def get_live_def)

text \<open>
  C9: the latency observation comes first in the guarded block. When it raises, the
  registry after the request is the registry before the recording step: the counter
  increment is not executed, whatever it would have done. When it succeeds, the counter
  increment works on the registry the observation produced.
\<close>

theorem latency_failure_skips_counter:
  assumes "route_label_from_request request = Inr label"
      and "call_next request w = (outcome, w1)"
  shows "(LATENCY_observe lib label (http_method request) (t1 - t0) (metrics_registry w1) = None \<longrightarrow>
            metrics_registry (snd (metrics_middleware lib call_next t0 t1 request w)) = metrics_registry w1) \<and>
         (\<forall>reg1 response.
            LATENCY_observe lib label (http_method request) (t1 - t0) (metrics_registry w1) = Some reg1 \<and>
            outcome = Inr response \<longrightarrow>
            metrics_registry (snd (metrics_middleware lib call_next t0 t1 request w)) =
              (case REQUESTS_inc lib label (http_method request) (str (status_code response)) reg1 of
                 None \<Rightarrow> reg1
               | Some reg2 \<Rightarrow> reg2))"
proof -
  have m: "metrics_middleware lib call_next t0 t1 request w =
      middleware_exit lib \<lparr>start = t0, route_label = label, request_method = http_method request\<rparr> t1 outcome w1"
    using assms by (rule metrics_middleware_eq)
  have r: "metrics_registry (snd (metrics_middleware lib call_next t0 t1 request w)) =
      record_metrics lib label (http_method request) (fst (snd (handle_outcome outcome w1))) (t1 - t0)
        (metrics_registry w1)"
    by (simp add: m middleware_exit_def handle_outcome_def split: prod.splits sum.splits)
  show ?thesis
    by (simp add: r record_metrics_def handle_outcome_def)
qed

text \<open>
  A library whose observation raises and whose counter works: \<open>/live\<close> leaves the
  registry empty.
\<close>

theorem latency_failure_skips_counter_witness:
  "LATENCY_observe (prometheus\<lparr>LATENCY_observe := \<lambda>route method duration reg. None\<rparr>)
      ''/live'' (http_method get_live) (3 - 1) (metrics_registry fresh_world) = None \<and>
   metrics_registry (snd (metrics_middleware (prometheus\<lparr>LATENCY_observe := \<lambda>route method duration reg. None\<rparr>)
      (call_endpoint (\<lambda>reg. []) [] default_settings Live) 1 3 get_live fresh_world)) = empty_registry"
  using latency_failure_skips_counter
      [of get_live "''/live''" "call_endpoint (\<lambda>reg. []) [] default_settings Live" fresh_world
          "Inr (JSONResponse (live default_settings) 200)" fresh_world
          "prometheus\<lparr>LATENCY_observe := \<lambda>route method duration reg. None\<rparr>" 3 1]
  by (simp add: route_label_from_request_def get_live_def call_endpoint_def fresh_world_def)

subsection \<open>The scrape endpoint and the switch\<close>

text \<open>
  C7: \<open>GET /metrics\<close> answers 404 when metrics are disabled, and otherwise returns the
  rendered registry with the exposition content type; in both branches the registry it
  leaves behind is the one it found.
\<close>

theorem metrics_endpoint_reads_only:
  "(\<not> METRICS_ENABLED settings \<longrightarrow> status_code (fst (metrics gen ctype settings reg)) = 404) \<and>
   (METRICS_ENABLED settings \<longrightarrow>
      fst (metrics gen ctype settings reg) = \<lparr>status_code = 200, body = Bytes (gen reg), media_type = ctype\<rparr>) \<and>
   snd (metrics gen ctype settings reg) = reg"
  by (simp add: metrics_def JSONResponse_def Response_def)

text \<open>Both branches on an empty registry.\<close>

theorem metrics_endpoint_reads_only_witness:
  "status_code (fst (metrics (\<lambda>reg. ''# no samples'') ''text/plain; version=0.0.4; charset=utf-8''
      (default_settings\<lparr>METRICS_ENABLED := False\<rparr>) empty_registry)) = 404 \<and>
   fst (metrics (\<lambda>reg. ''# no samples'') ''text/plain; version=0.0.4; charset=utf-8'' default_settings empty_registry) =
     \<lparr>status_code = 200, body = Bytes ''# no samples'',
      media_type = ''text/plain; version=0.0.4; charset=utf-8''\<rparr>"
  using metrics_endpoint_reads_only
      [of "default_settings\<lparr>METRICS_ENABLED := False\<rparr>" "\<lambda>reg. ''# no samples''"
          "''text/plain; version=0.0.4; charset=utf-8''" empty_registry]
    metrics_endpoint_reads_only
      [of default_settings "\<lambda>reg. ''# no samples''"
          "''text/plain; version=0.0.4; charset=utf-8''" empty_registry]
  by (simp add: default_settings_def)

text \<open>
  C8: for \<open>/live\<close>, \<open>/ready\<close>, \<open>/health\<close> and \<open>/echo\<close>, two runs that differ only in
  \<open>METRICS_ENABLED\<close> give the same response and the same world, while \<open>/metrics\<close>
  answers 404 when it is disabled: the endpoint does, and so does the middleware around
  it for every request that reaches the pipeline.
\<close>

theorem metrics_switch_leaves_other_endpoints:
  "(ep \<noteq> Metrics \<longrightarrow>
      metrics_middleware lib (call_endpoint gen ctype (settings\<lparr>METRICS_ENABLED := b\<rparr>) ep) t0 t1 request w =
      metrics_middleware lib (call_endpoint gen ctype settings ep) t0 t1 request w) \<and>
   (\<exists>response. fst (call_endpoint gen ctype (settings\<lparr>METRICS_ENABLED := False\<rparr>) Metrics request w) =
        Inr response \<and> status_code response = 404) \<and>
   (\<forall>label. route_label_from_request request = Inr label \<longrightarrow>
      (\<exists>response. fst (metrics_middleware lib (call_endpoint gen ctype (settings\<lparr>METRICS_ENABLED := False\<rparr>) Metrics)
          t0 t1 request w) = Inr response \<and> status_code response = 404))"
proof -
  have e: "ep \<noteq> Metrics \<Longrightarrow>
      call_endpoint gen ctype (settings\<lparr>METRICS_ENABLED := b\<rparr>) ep = call_endpoint gen ctype settings ep"
    by (cases ep) (simp_all add: call_endpoint_def live_def fun_eq_iff)
  have c: "call_endpoint gen ctype (settings\<lparr>METRICS_ENABLED := False\<rparr>) Metrics request w =
      (Inr (JSONResponse [(''detail'', ''metrics disabled'')] 404), w)"
    by (simp add: call_endpoint_def metrics_def)
  have m: "fst (metrics_middleware lib (call_endpoint gen ctype (settings\<lparr>METRICS_ENABLED := False\<rparr>) Metrics)
        t0 t1 request w) = Inr (JSONResponse [(''detail'', ''metrics disabled'')] 404)"
    if l: "route_label_from_request request = Inr label" for label
    by (simp add: metrics_middleware_eq
          [where call_next = "call_endpoint gen ctype (settings\<lparr>METRICS_ENABLED := False\<rparr>) Metrics", OF l c]
        middleware_exit_result handle_outcome_result)
  show ?thesis
    using e c m by (simp add: JSONResponse_def)
qed

text \<open>\<open>POST /echo\<close> with metrics disabled and with the default settings.\<close>

theorem metrics_switch_leaves_other_endpoints_witness:
  "EchoEndpoint \<lparr>message = ''hi''\<rparr> \<noteq> Metrics \<and>
   route_label_from_request post_echo = Inr ''/echo'' \<and>
   fst (metrics_middleware prometheus
      (call_endpoint (\<lambda>reg. []) [] (default_settings\<lparr>METRICS_ENABLED := False\<rparr>) (EchoEndpoint \<lparr>message = ''hi''\<rparr>))
      1 3 post_echo fresh_world) =
   fst (metrics_middleware prometheus
      (call_endpoint (\<lambda>reg. []) [] default_settings (EchoEndpoint \<lparr>message = ''hi''\<rparr>))
      1 3 post_echo fresh_world) \<and>
   (\<exists>response. fst (metrics_middleware prometheus
      (call_endpoint (\<lambda>reg. []) [] (default_settings\<lparr>METRICS_ENABLED := False\<rparr>) Metrics)
      1 3 post_echo fresh_world) = Inr response \<and> status_code response = 404)"
proof -
  have l: "route_label_from_request post_echo = Inr ''/echo''"
    by (simp add: route_label_from_request_def post_echo_def)
  from metrics_switch_leaves_other_endpoints
      [where ep = "EchoEndpoint \<lparr>message = ''hi''\<rparr>" and lib = prometheus and gen = "\<lambda>reg. []"
         and ctype = "[]" and settings = default_settings and b = False and ?t0.0 = 1 and ?t1.0 = 3
         and request = post_echo and w = fresh_world]
    l
  show ?thesis
    by simp
qed

subsection \<open>The trusted hosts\<close>

text \<open>
  C10: when \<open>ALLOWED_HOSTS\<close> parses to the empty list, which is exactly when it holds
  nothing but commas and whitespace, the trusted-host filter is given the wildcard \<open>"*"\<close>
  and accepts every \<open>Host\<close> header.
\<close>

theorem empty_allowed_hosts_trusts_every_host:
  "(allowed_hosts settings = [] \<longleftrightarrow>
      (\<forall>c \<in> set (ALLOWED_HOSTS settings). c = CHR '','' \<or> isspace c)) \<and>
   (allowed_hosts settings = [] \<longrightarrow>
      trusted_hosts settings = [''*''] \<and>
      (\<forall>header. trusted_host_accepts (trusted_hosts settings) header))"
  using allowed_hosts_empty_iff [of settings]
  by (simp add: trusted_hosts_def trusted_host_accepts_def)

text \<open>A string of blanks and commas.\<close>

theorem empty_allowed_hosts_trusts_every_host_witness:
  "allowed_hosts (default_settings\<lparr>ALLOWED_HOSTS := '' , ,''\<rparr>) = [] \<and>
   trusted_hosts (default_settings\<lparr>ALLOWED_HOSTS := '' , ,''\<rparr>) = [''*''] \<and>
   trusted_host_accepts (trusted_hosts (default_settings\<lparr>ALLOWED_HOSTS := '' , ,''\<rparr>)) ''evil.example:8000''"
proof -
  have e: "allowed_hosts (default_settings\<lparr>ALLOWED_HOSTS := '' , ,''\<rparr>) = []"
    by (simp add: allowed_hosts_def strip_def isspace_def)
  show ?thesis
    using e empty_allowed_hosts_trusts_every_host [of "default_settings\<lparr>ALLOWED_HOSTS := '' , ,''\<rparr>"]
    by blast
qed

subsection \<open>Requests in flight together\<close>

text \<open>
  C6: take any run of requests that overlap in any order, all with the same route label
  and method and all completing with the same status code, and let every request that
  arrived complete. Then the counter of that label triple has grown by the number of
  requests; from a fresh registry it equals that number.
\<close>

theorem concurrent_requests_all_counted:
  assumes "run prometheus evs \<lparr>in_flight = Map.empty, shared = w\<rparr> = Some s"
      and "list_all (resolves_to (l, m, k)) evs"
      and "in_flight s = Map.empty"
  shows "counter_value (metrics_registry (shared s)) (l, m, k) =
           counter_value (metrics_registry w) (l, m, k) + length (filter is_Arrive evs)"
  using run_counts [OF assms(1) assms(2)] assms(3) by simp

text \<open>Two overlapping requests for \<open>/live\<close> on a fresh registry: the counter is 2.\<close>

theorem concurrent_requests_all_counted_witness:
  "run prometheus two_overlapping_requests \<lparr>in_flight = Map.empty, shared = fresh_world\<rparr> \<noteq> None \<and>
   list_all (resolves_to (''/live'', ''GET'', ''200'')) two_overlapping_requests \<and>
   in_flight (the (run prometheus two_overlapping_requests \<lparr>in_flight = Map.empty, shared = fresh_world\<rparr>))
     = Map.empty \<and>
   counter_value (metrics_registry (shared (the
       (run prometheus two_overlapping_requests \<lparr>in_flight = Map.empty, shared = fresh_world\<rparr>))))
     (''/live'', ''GET'', ''200'') = 2"
proof -
  let ?s0 = "\<lparr>in_flight = Map.empty, shared = fresh_world\<rparr>"
  have "\<exists>s. run prometheus two_overlapping_requests ?s0 = Some s \<and> in_flight s = Map.empty"
    by (simp add: two_overlapping_requests_def middleware_enter_def route_label_from_request_def
        get_live_def fun_eq_iff)
  then obtain s where r: "run prometheus two_overlapping_requests ?s0 = Some s"
    and e: "in_flight s = Map.empty"
    by blast
  have a: "list_all (resolves_to (''/live'', ''GET'', ''200'')) two_overlapping_requests"
    by (simp add: two_overlapping_requests_def route_label_from_request_def get_live_def
        JSONResponse_def str_200)
  have f: "length (filter is_Arrive two_overlapping_requests) = 2"
    by (simp add: two_overlapping_requests_def)
  have z: "counter_value (metrics_registry fresh_world) (''/live'', ''GET'', ''200'') = 0"
    by (simp add: fresh_world_def empty_registry_def counter_value_def)
  from concurrent_requests_all_counted [OF r a e] f z
  have "counter_value (metrics_registry (shared s)) (''/live'', ''GET'', ''200'') = 2"
    by simp
  with r e a show ?thesis by simp
qed

end
